theory Spec2Isabelle
  imports Main
begin

section \<open>JavaScript values\<close>

text \<open>
  Request bodies, query strings and tool arguments are JSON values; a property that is
  absent reads as \<open>undefined\<close>, which is a value of its own here.  A string stands for
  a well-formed text, kept as the bytes of its UTF-8 encoding.  An object is the list of
  its members in insertion order; a property read takes the first member of that name.
\<close>

datatype json =
    JUndefined
  | JNull
  | JBool bool
  | JNum int
  | JStr string
  | JArr "json list"
  | JObj "(string \<times> json) list"

text \<open>Reading a member of an object that is known to be one (\<open>req.query\<close>, \<open>req.body\<close>).\<close>

definition field :: "(string \<times> json) list \<Rightarrow> string \<Rightarrow> json" where
  "field kvs k = (case map_of kvs k of Some v \<Rightarrow> v | None \<Rightarrow> JUndefined)"

text \<open>
  \<open>v.k\<close> on a value that is neither \<open>undefined\<close> nor \<open>null\<close>.  None of the property
  names the handlers read is defined on the prototypes of strings, numbers, booleans or
  arrays, so on those the read gives \<open>undefined\<close>.
\<close>

definition get_prop :: "json \<Rightarrow> string \<Rightarrow> json" where
  "get_prop v k = (case v of JObj kvs \<Rightarrow> field kvs k | _ \<Rightarrow> JUndefined)"

definition nullish :: "json \<Rightarrow> bool" where
  "nullish v = (case v of JUndefined \<Rightarrow> True | JNull \<Rightarrow> True | _ \<Rightarrow> False)"

text \<open>Truthiness, and \<open>a || b\<close>.\<close>

fun truthy :: "json \<Rightarrow> bool" where
  "truthy JUndefined = False"
| "truthy JNull = False"
| "truthy (JBool b) = b"
| "truthy (JNum n) = (n \<noteq> 0)"
| "truthy (JStr s) = (s \<noteq> [])"
| "truthy (JArr xs) = True"
| "truthy (JObj kvs) = True"

definition js_or :: "json \<Rightarrow> json \<Rightarrow> json" where
  "js_or a b = (if truthy a then a else b)"

text \<open>
  What the handlers take from the JavaScript runtime without defining it: the string
  conversion of a value that is not a string, \<open>Buffer.from\<close> on a value that is not a
  string (a \<open>TypeError\<close> message, or the bytes), and the message of the \<open>TypeError\<close> raised
  by reading a property of \<open>undefined\<close> or \<open>null\<close>.
\<close>

record runtime =
  to_string :: "json \<Rightarrow> string"
  buffer_from_other :: "json \<Rightarrow> string + nat list"
  nullish_read :: "json \<Rightarrow> string \<Rightarrow> string"

text \<open>A value spliced into a template literal: \<open>`${v}`\<close>.\<close>

definition tmpl :: "runtime \<Rightarrow> json \<Rightarrow> string" where
  "tmpl rt v = (case v of JStr s \<Rightarrow> s | _ \<Rightarrow> to_string rt v)"

section \<open>Buffers: UTF-8 and base64\<close>

text \<open>
  A \<open>Buffer\<close> is a list of bytes.  \<open>Buffer.from(s)\<close> on a string gives the UTF-8 bytes of
  the text, which is the representation of the string itself.
\<close>

definition Buffer_from :: "runtime \<Rightarrow> json \<Rightarrow> string + nat list" where
  "Buffer_from rt v = (case v of JStr s \<Rightarrow> Inr (map of_char s) | _ \<Rightarrow> buffer_from_other rt v)"

text \<open>\<open>buf.toString('base64')\<close>: the alphabet of RFC 4648 with \<open>=\<close> padding.\<close>

definition b64_char :: "nat \<Rightarrow> char" where
  "b64_char i =
     (if i < 26 then char_of (65 + i)
      else if i < 52 then char_of (97 + (i - 26))
      else if i < 62 then char_of (48 + (i - 52))
      else if i = 62 then CHR ''+''
      else CHR ''/'')"

fun base64_of_bytes :: "nat list \<Rightarrow> string" where
  "base64_of_bytes (a # b # c # rest) =
     b64_char (a div 4) # b64_char ((a mod 4) * 16 + b div 16)
       # b64_char ((b mod 16) * 4 + c div 64) # b64_char (c mod 64) # base64_of_bytes rest"
| "base64_of_bytes [a, b] =
     [b64_char (a div 4), b64_char ((a mod 4) * 16 + b div 16), b64_char ((b mod 16) * 4), CHR ''='']"
| "base64_of_bytes [a] =
     [b64_char (a div 4), b64_char ((a mod 4) * 16), CHR ''='', CHR ''='']"
| "base64_of_bytes [] = []"

text \<open>
  \<open>Buffer.from(s, 'base64')\<close> reads the string by its UTF-16 code units and takes the low
  byte of each, so a character outside ASCII counts as the ASCII character its low byte is.
  In the bytes of a well-formed text a character of two or three bytes is one unit, and a
  character of four bytes is a pair of surrogates.
\<close>

fun unit_low_bytes :: "nat list \<Rightarrow> nat list" where
  "unit_low_bytes [] = []"
| "unit_low_bytes (a # rest) =
     (if a < 192 then a # unit_low_bytes rest
      else if a < 224 then
        (case rest of
           b # r \<Rightarrow> ((a mod 32) * 64 + b mod 64) mod 256 # unit_low_bytes r
         | [] \<Rightarrow> [])
      else if a < 240 then
        (case rest of
           b # c # r \<Rightarrow>
             ((a mod 16) * 4096 + (b mod 64) * 64 + c mod 64) mod 256 # unit_low_bytes r
         | _ \<Rightarrow> [])
      else
        (case rest of
           b # c # d # r \<Rightarrow>
             (let v = (a mod 8) * 262144 + (b mod 64) * 4096 + (c mod 64) * 64 + d mod 64 - 65536
              in (55296 + v div 1024) mod 256 # (56320 + v mod 1024) mod 256 # unit_low_bytes r)
         | _ \<Rightarrow> []))"

definition low_bytes :: "string \<Rightarrow> string" where
  "low_bytes s = map char_of (unit_low_bytes (map of_char s))"

text \<open>
  The decoder is forgiving: a character outside the alphabet (white space, the line breaks
  the hosting service puts into its payloads) is skipped, the URL-safe \<open>-\<close> and \<open>_\<close> are
  accepted, decoding stops at the first \<open>=\<close>, and an incomplete last group gives the bytes
  it determines.
\<close>

definition unbase64 :: "char \<Rightarrow> nat option" where
  "unbase64 c =
     (let n = (of_char c :: nat) in
      if 65 \<le> n \<and> n \<le> 90 then Some (n - 65)
      else if 97 \<le> n \<and> n \<le> 122 then Some (n - 71)
      else if 48 \<le> n \<and> n \<le> 57 then Some (n + 4)
      else if c = CHR ''+'' then Some 62
      else if c = CHR ''-'' then Some 62
      else if c = CHR ''/'' then Some 63
      else if c = CHR ''_'' then Some 63
      else None)"

fun sextets :: "string \<Rightarrow> nat list" where
  "sextets [] = []"
| "sextets (c # cs) =
     (if c = CHR ''='' then []
      else case unbase64 c of Some v \<Rightarrow> v # sextets cs | None \<Rightarrow> sextets cs)"

fun bytes_of_sextets :: "nat list \<Rightarrow> nat list" where
  "bytes_of_sextets (a # b # c # d # rest) =
     (a * 4 + b div 16) # ((b mod 16) * 16 + c div 4) # ((c mod 4) * 64 + d) # bytes_of_sextets rest"
| "bytes_of_sextets [a, b, c] = [a * 4 + b div 16, (b mod 16) * 16 + c div 4]"
| "bytes_of_sextets [a, b] = [a * 4 + b div 16]"
| "bytes_of_sextets [a] = []"
| "bytes_of_sextets [] = []"

definition bytes_of_base64 :: "string \<Rightarrow> nat list" where
  "bytes_of_base64 s = bytes_of_sextets (sextets (low_bytes s))"

text \<open>
  \<open>buf.toString('utf-8')\<close>: the decoder copies every well-formed UTF-8 sequence and puts
  U+FFFD (bytes EF BF BD) for every maximal ill-formed part.
\<close>

definition utf8_cont :: "nat \<Rightarrow> bool" where
  "utf8_cont b = (128 \<le> b \<and> b \<le> 191)"

text \<open>The range of the second byte after the lead byte \<open>a\<close> of a 3- or 4-byte sequence.\<close>

definition utf8_second :: "nat \<Rightarrow> nat \<Rightarrow> bool" where
  "utf8_second a b =
     (if a = 224 then 160 \<le> b \<and> b \<le> 191
      else if a = 237 then 128 \<le> b \<and> b \<le> 159
      else if a = 240 then 144 \<le> b \<and> b \<le> 191
      else if a = 244 then 128 \<le> b \<and> b \<le> 143
      else 128 \<le> b \<and> b \<le> 191)"

definition replacement :: "nat list" where
  "replacement = [239, 191, 189]"

text \<open>
  One step of the decoder on the lead byte \<open>a\<close> and the bytes after it: what it puts out
  and the bytes it leaves.  A byte that ends a sequence too early is left for the next step.
\<close>

definition utf8_step :: "nat \<Rightarrow> nat list \<Rightarrow> nat list \<times> nat list" where
  "utf8_step a rest =
     (if a < 128 then ([a], rest)
      else if 194 \<le> a \<and> a \<le> 223 then
        (case rest of
           b # r \<Rightarrow> if utf8_cont b then ([a, b], r) else (replacement, rest)
         | [] \<Rightarrow> (replacement, []))
      else if 224 \<le> a \<and> a \<le> 239 then
        (case rest of
           b # r \<Rightarrow>
             if utf8_second a b then
               (case r of
                  c # r' \<Rightarrow> if utf8_cont c then ([a, b, c], r') else (replacement, r)
                | [] \<Rightarrow> (replacement, []))
             else (replacement, rest)
         | [] \<Rightarrow> (replacement, []))
      else if 240 \<le> a \<and> a \<le> 244 then
        (case rest of
           b # r \<Rightarrow>
             if utf8_second a b then
               (case r of
                  c # r' \<Rightarrow>
                    if utf8_cont c then
                      (case r' of
                         d # r'' \<Rightarrow>
                           if utf8_cont d then ([a, b, c, d], r'') else (replacement, r')
                       | [] \<Rightarrow> (replacement, []))
                    else (replacement, r)
                | [] \<Rightarrow> (replacement, []))
             else (replacement, rest)
         | [] \<Rightarrow> (replacement, []))
      else (replacement, rest))"

function utf8_decode :: "nat list \<Rightarrow> nat list" where
  "utf8_decode [] = []"
| "utf8_decode (a # rest) = (case utf8_step a rest of (out, left) \<Rightarrow> out @ utf8_decode left)"
  by pat_completeness auto
termination
  by (relation "measure length") (auto simp: utf8_step_def split: if_splits list.splits)

definition toString_utf8 :: "nat list \<Rightarrow> string" where
  "toString_utf8 bs = map char_of (utf8_decode bs)"


definition base64_decode :: "string \<Rightarrow> string" where
  "base64_decode s = toString_utf8 (bytes_of_base64 s)"




section \<open>Calls that may throw, against a service with state\<close>

text \<open>
  An awaited call either returns a value or throws an error, of which the handlers read
  only \<open>message\<close>; it may change the state \<open>'u\<close> of the hosting service.
\<close>

type_synonym ('a, 'u) io = "'u \<Rightarrow> (string + 'a) \<times> 'u"

definition io_ret :: "'a \<Rightarrow> ('a, 'u) io" where
  "io_ret x u = (Inr x, u)"

definition io_throw :: "string \<Rightarrow> ('a, 'u) io" where
  "io_throw m u = (Inl m, u)"

definition io_lift :: "string + 'a \<Rightarrow> ('a, 'u) io" where
  "io_lift r u = (r, u)"

definition io_bind :: "('a, 'u) io \<Rightarrow> ('a \<Rightarrow> ('b, 'u) io) \<Rightarrow> ('b, 'u) io" where
  "io_bind m f u = (case m u of (Inl e, u') \<Rightarrow> (Inl e, u') | (Inr x, u') \<Rightarrow> f x u')"

text \<open>\<open>try { m } catch (error) { h(error.message) }\<close>\<close>

definition io_catch :: "('a, 'u) io \<Rightarrow> (string \<Rightarrow> ('a, 'u) io) \<Rightarrow> ('a, 'u) io" where
  "io_catch m h u = (case m u of (Inl e, u') \<Rightarrow> h e u' | (Inr x, u') \<Rightarrow> (Inr x, u'))"

text \<open>
  An expression that first reads property \<open>k\<close> of \<open>args\<close>: a \<open>TypeError\<close> when \<open>args\<close> is
  \<open>undefined\<close> or \<open>null\<close>, and then every later read of \<open>args\<close> succeeds.
\<close>

definition reading :: "runtime \<Rightarrow> json \<Rightarrow> string \<Rightarrow> ('a, 'u) io \<Rightarrow> ('a, 'u) io" where
  "reading rt args k m = (if nullish args then io_throw (nullish_read rt args k) else m)"

section \<open>The hosting service\<close>

text \<open>What the handlers read of the responses of the hosting service.\<close>

record repo_data =
  r_name :: string
  r_full_name :: string
  r_owner_login :: string
  r_private :: bool
  r_description :: "string option"
  r_html_url :: string
  r_default_branch :: string
  r_others :: "(string \<times> json) list"

record file_data =
  f_content :: string
  f_sha :: string
  f_size :: int
  f_path :: string

text \<open>\<open>getContent\<close> answers with one object for a file and with an array for a directory.\<close>

datatype content_data = File file_data | Directory "json list"

record write_data =
  w_commit_sha :: string
  w_content :: json

record ref_data =
  ref_object_sha :: string

record pull_data =
  pr_number :: int
  pr_html_url :: string
  pr_state :: string

text \<open>
  The client of the hosting service, configured once at start-up.  Every method takes the
  object the handler passes (its members in source order) and the state of the service.
\<close>

record 'u octokit =
  repos_listForAuthenticatedUser :: "(string \<times> json) list \<Rightarrow> (repo_data list, 'u) io"
  repos_getContent :: "(string \<times> json) list \<Rightarrow> (content_data, 'u) io"
  repos_createOrUpdateFileContents :: "(string \<times> json) list \<Rightarrow> (write_data, 'u) io"
  repos_get :: "(string \<times> json) list \<Rightarrow> (repo_data, 'u) io"
  git_getRef :: "(string \<times> json) list \<Rightarrow> (ref_data, 'u) io"
  git_createRef :: "(string \<times> json) list \<Rightarrow> (ref_data, 'u) io"
  pulls_create :: "(string \<times> json) list \<Rightarrow> (pull_data, 'u) io"

section \<open>Requests and responses\<close>

text \<open>
  A response: the status and the value handed to \<open>res.json\<close>, which serialises it.  Equal
  values are sent as equal bytes.
\<close>

record response =
  status :: nat
  body :: json

text \<open>
  A request to a REST route: the route parameters \<open>req.params.owner\<close>, \<open>req.params.repo\<close>
  and \<open>req.params[0]\<close> (strings), the parsed query string and the parsed JSON body.
\<close>

record rest_request =
  req_owner :: string
  req_repo :: string
  req_path :: string
  req_query :: "(string \<times> json) list"
  req_body :: "(string \<times> json) list"

text \<open>\<open>res.json(v)\<close> and \<open>res.status(n).json(v)\<close>.\<close>

definition res_json :: "json \<Rightarrow> (response, 'u) io" where
  "res_json v = io_ret \<lparr>status = 200, body = v\<rparr>"

definition res_status_json :: "nat \<Rightarrow> json \<Rightarrow> (response, 'u) io" where
  "res_status_json n v = io_ret \<lparr>status = n, body = v\<rparr>"

definition error_body :: "string \<Rightarrow> json" where
  "error_body m = JObj [(''error'', JStr m)]"

text \<open>
  The shape of every REST handler and of \<open>/execute\<close>:
  \<open>try { ... } catch (error) { res.status(500).json({ error: error.message }) }\<close>.
\<close>

definition handler :: "(response, 'u) io \<Rightarrow> 'u \<Rightarrow> response \<times> 'u" where
  "handler m u =
     (case m u of
        (Inl e, u') \<Rightarrow> (\<lparr>status = 500, body = error_body e\<rparr>, u')
      | (Inr r, u') \<Rightarrow> (r, u'))"

section \<open>The five operations, REST adapter\<close>

definition opt_string :: "string option \<Rightarrow> json" where
  "opt_string d = (case d of None \<Rightarrow> JNull | Some s \<Rightarrow> JStr s)"

text \<open>The projection both adapters apply to every repository.\<close>

definition summary :: "repo_data \<Rightarrow> json" where
  "summary r = JObj
     [(''name'', JStr (r_name r)),
      (''full_name'', JStr (r_full_name r)),
      (''owner'', JStr (r_owner_login r)),
      (''private'', JBool (r_private r)),
      (''description'', opt_string (r_description r)),
      (''url'', JStr (r_html_url r)),
      (''default_branch'', JStr (r_default_branch r))]"

definition list_params :: "json \<Rightarrow> (string \<times> json) list" where
  "list_params visibility =
     [(''visibility'', visibility), (''sort'', JStr ''updated''), (''per_page'', JNum 100)]"

definition rest_list_repositories :: "'u octokit \<Rightarrow> rest_request \<Rightarrow> 'u \<Rightarrow> response \<times> 'u" where
  "rest_list_repositories oct req =
     handler
       (let visibility = js_or (field (req_query req) ''visibility'') (JStr ''all'') in
        io_bind (repos_listForAuthenticatedUser oct (list_params visibility))
          (\<lambda>repos. res_json (JArr (map summary repos))))"

definition content_params :: "json \<Rightarrow> json \<Rightarrow> json \<Rightarrow> json \<Rightarrow> (string \<times> json) list" where
  "content_params owner repo path branch =
     [(''owner'', owner), (''repo'', repo), (''path'', path), (''ref'', branch)]"

definition file_body :: "file_data \<Rightarrow> json" where
  "file_body f = JObj
     [(''content'', JStr (base64_decode (f_content f))),
      (''sha'', JStr (f_sha f)),
      (''size'', JNum (f_size f)),
      (''path'', JStr (f_path f))]"

definition rest_get_file :: "'u octokit \<Rightarrow> rest_request \<Rightarrow> 'u \<Rightarrow> response \<times> 'u" where
  "rest_get_file oct req =
     handler
       (let owner = JStr (req_owner req); repo = JStr (req_repo req);
            path = JStr (req_path req);
            branch = field (req_query req) ''branch'' in
        io_bind (repos_getContent oct (content_params owner repo path branch))
          (\<lambda>data. case data of
             Directory entries \<Rightarrow> res_status_json 400 (error_body ''Path is a directory'')
           | File f \<Rightarrow> res_json (file_body f)))"

text \<open>\<open>existing.data.sha\<close>: an array has no such property.\<close>

definition data_sha :: "content_data \<Rightarrow> json" where
  "data_sha data = (case data of File f \<Rightarrow> JStr (f_sha f) | Directory entries \<Rightarrow> JUndefined)"

text \<open>
  \<open>let sha; try { sha = (await getContent(...)).data.sha } catch (e) { }\<close>: whatever the
  read throws is dropped and \<open>sha\<close> stays \<open>undefined\<close>.
\<close>

definition existing_sha :: "(content_data, 'u) io \<Rightarrow> (json, 'u) io" where
  "existing_sha read =
     io_catch (io_bind read (\<lambda>data. io_ret (data_sha data))) (\<lambda>e. io_ret JUndefined)"

definition write_params ::
  "json \<Rightarrow> json \<Rightarrow> json \<Rightarrow> json \<Rightarrow> string \<Rightarrow> json \<Rightarrow> json \<Rightarrow> (string \<times> json) list" where
  "write_params owner repo path message content64 branch sha =
     [(''owner'', owner), (''repo'', repo), (''path'', path), (''message'', message),
      (''content'', JStr content64), (''branch'', branch), (''sha'', sha)]"

definition write_body :: "write_data \<Rightarrow> json" where
  "write_body w = JObj
     [(''success'', JBool True),
      (''commit'', JStr (w_commit_sha w)),
      (''content'', w_content w)]"

definition rest_create_or_update_file ::
  "runtime \<Rightarrow> 'u octokit \<Rightarrow> rest_request \<Rightarrow> 'u \<Rightarrow> response \<times> 'u" where
  "rest_create_or_update_file rt oct req =
     handler
       (let owner = JStr (req_owner req); repo = JStr (req_repo req);
            path = JStr (req_path req);
            content = field (req_body req) ''content'';
            message = field (req_body req) ''message'';
            branch = field (req_body req) ''branch'' in
        io_bind (existing_sha (repos_getContent oct (content_params owner repo path branch)))
          (\<lambda>sha.
        io_bind (io_lift (Buffer_from rt content))
          (\<lambda>buf.
        io_bind (repos_createOrUpdateFileContents oct
                   (write_params owner repo path message (base64_of_bytes buf) branch sha))
          (\<lambda>w. res_json (write_body w)))))"

definition source_branch :: "json \<Rightarrow> repo_data \<Rightarrow> json" where
  "source_branch from_branch repoData = js_or from_branch (JStr (r_default_branch repoData))"

definition getRef_params :: "runtime \<Rightarrow> json \<Rightarrow> json \<Rightarrow> json \<Rightarrow> (string \<times> json) list" where
  "getRef_params rt owner repo fromBranch =
     [(''owner'', owner), (''repo'', repo), (''ref'', JStr (''heads/'' @ tmpl rt fromBranch))]"

definition createRef_params ::
  "runtime \<Rightarrow> json \<Rightarrow> json \<Rightarrow> json \<Rightarrow> string \<Rightarrow> (string \<times> json) list" where
  "createRef_params rt owner repo branch sha =
     [(''owner'', owner), (''repo'', repo),
      (''ref'', JStr (''refs/heads/'' @ tmpl rt branch)), (''sha'', JStr sha)]"

definition branch_body :: "json \<Rightarrow> ref_data \<Rightarrow> json" where
  "branch_body branch newBranch = JObj
     [(''success'', JBool True),
      (''branch'', branch),
      (''sha'', JStr (ref_object_sha newBranch))]"

definition rest_create_branch ::
  "runtime \<Rightarrow> 'u octokit \<Rightarrow> rest_request \<Rightarrow> 'u \<Rightarrow> response \<times> 'u" where
  "rest_create_branch rt oct req =
     handler
       (let owner = JStr (req_owner req); repo = JStr (req_repo req);
            branch = field (req_body req) ''branch'';
            from_branch = field (req_body req) ''from_branch'' in
        io_bind (repos_get oct [(''owner'', owner), (''repo'', repo)])
          (\<lambda>repoData.
        io_bind (git_getRef oct (getRef_params rt owner repo (source_branch from_branch repoData)))
          (\<lambda>ref.
        io_bind (git_createRef oct (createRef_params rt owner repo branch (ref_object_sha ref)))
          (\<lambda>newBranch. res_json (branch_body branch newBranch)))))"

definition pull_params ::
  "json \<Rightarrow> json \<Rightarrow> json \<Rightarrow> json \<Rightarrow> json \<Rightarrow> json \<Rightarrow> (string \<times> json) list" where
  "pull_params owner repo title body' head base =
     [(''owner'', owner), (''repo'', repo), (''title'', title),
      (''body'', js_or body' (JStr [])), (''head'', head), (''base'', base)]"

definition pull_body :: "pull_data \<Rightarrow> json" where
  "pull_body pr = JObj
     [(''success'', JBool True),
      (''number'', JNum (pr_number pr)),
      (''url'', JStr (pr_html_url pr)),
      (''state'', JStr (pr_state pr))]"

definition rest_create_pull_request :: "'u octokit \<Rightarrow> rest_request \<Rightarrow> 'u \<Rightarrow> response \<times> 'u" where
  "rest_create_pull_request oct req =
     handler
       (let owner = JStr (req_owner req); repo = JStr (req_repo req);
            title = field (req_body req) ''title'';
            body' = field (req_body req) ''body'';
            head = field (req_body req) ''head'';
            base = field (req_body req) ''base'' in
        io_bind (pulls_create oct (pull_params owner repo title body' head base))
          (\<lambda>pr. res_json (pull_body pr)))"

section \<open>The five operations, tool-invocation adapter\<close>

text \<open>
  The cases of the \<open>switch\<close> of \<open>/execute\<close>.  Each gives the value of \<open>result\<close>, or throws
  out of the \<open>switch\<close>.  \<open>list_repositories\<close> has no \<open>try\<close> of its own; the other four catch
  what they throw and make it \<open>{ error: error.message }\<close>.
\<close>

definition tool_list_repositories :: "runtime \<Rightarrow> 'u octokit \<Rightarrow> json \<Rightarrow> (json, 'u) io" where
  "tool_list_repositories rt oct args =
     reading rt args ''visibility''
       (io_bind (repos_listForAuthenticatedUser oct
                   (list_params (js_or (get_prop args ''visibility'') (JStr ''all''))))
          (\<lambda>repos. io_ret (JArr (map summary repos))))"

definition tool_get_file :: "runtime \<Rightarrow> 'u octokit \<Rightarrow> json \<Rightarrow> (json, 'u) io" where
  "tool_get_file rt oct args =
     io_catch
       (io_bind (reading rt args ''owner''
                   (repos_getContent oct
                      (content_params (get_prop args ''owner'') (get_prop args ''repo'')
                         (get_prop args ''path'') (get_prop args ''branch''))))
          (\<lambda>data. case data of
             Directory entries \<Rightarrow> io_ret (error_body ''Path is a directory, not a file'')
           | File f \<Rightarrow> io_ret (file_body f)))
       (\<lambda>e. io_ret (error_body e))"

definition tool_create_or_update_file :: "runtime \<Rightarrow> 'u octokit \<Rightarrow> json \<Rightarrow> (json, 'u) io" where
  "tool_create_or_update_file rt oct args =
     io_catch
       (io_bind (existing_sha
                   (reading rt args ''owner''
                      (repos_getContent oct
                         (content_params (get_prop args ''owner'') (get_prop args ''repo'')
                            (get_prop args ''path'') (get_prop args ''branch'')))))
          (\<lambda>sha.
        io_bind (reading rt args ''owner'' (io_lift (Buffer_from rt (get_prop args ''content''))))
          (\<lambda>buf.
        io_bind (repos_createOrUpdateFileContents oct
                   (write_params (get_prop args ''owner'') (get_prop args ''repo'')
                      (get_prop args ''path'') (get_prop args ''message'')
                      (base64_of_bytes buf) (get_prop args ''branch'') sha))
          (\<lambda>w. io_ret (write_body w)))))
       (\<lambda>e. io_ret (error_body e))"

definition tool_create_branch :: "runtime \<Rightarrow> 'u octokit \<Rightarrow> json \<Rightarrow> (json, 'u) io" where
  "tool_create_branch rt oct args =
     io_catch
       (let owner = get_prop args ''owner''; repo = get_prop args ''repo'';
            branch = get_prop args ''branch'' in
        io_bind (reading rt args ''owner'' (repos_get oct [(''owner'', owner), (''repo'', repo)]))
          (\<lambda>repoData.
        io_bind (git_getRef oct
                   (getRef_params rt owner repo
                      (source_branch (get_prop args ''from_branch'') repoData)))
          (\<lambda>ref.
        io_bind (git_createRef oct (createRef_params rt owner repo branch (ref_object_sha ref)))
          (\<lambda>newBranch. io_ret (branch_body branch newBranch)))))
       (\<lambda>e. io_ret (error_body e))"

definition tool_create_pull_request :: "runtime \<Rightarrow> 'u octokit \<Rightarrow> json \<Rightarrow> (json, 'u) io" where
  "tool_create_pull_request rt oct args =
     io_catch
       (io_bind (reading rt args ''owner''
                   (pulls_create oct
                      (pull_params (get_prop args ''owner'') (get_prop args ''repo'')
                         (get_prop args ''title'') (get_prop args ''body'')
                         (get_prop args ''head'') (get_prop args ''base''))))
          (\<lambda>pr. io_ret (pull_body pr)))
       (\<lambda>e. io_ret (error_body e))"

text \<open>
  \<open>POST /execute\<close>: \<open>const { tool, arguments: args } = req.body\<close>, the \<open>switch\<close> on \<open>tool\<close>
  (strict equality with the five names), \<open>res.json({ result })\<close>, and the outer \<open>catch\<close>.
\<close>

definition dispatch :: "runtime \<Rightarrow> 'u octokit \<Rightarrow> json \<Rightarrow> json \<Rightarrow> (json, 'u) io" where
  "dispatch rt oct tool args =
     (if tool = JStr ''list_repositories'' then tool_list_repositories rt oct args
      else if tool = JStr ''get_file'' then tool_get_file rt oct args
      else if tool = JStr ''create_or_update_file'' then tool_create_or_update_file rt oct args
      else if tool = JStr ''create_branch'' then tool_create_branch rt oct args
      else if tool = JStr ''create_pull_request'' then tool_create_pull_request rt oct args
      else io_ret (error_body (''Unknown tool: '' @ tmpl rt tool)))"

definition execute ::
  "runtime \<Rightarrow> 'u octokit \<Rightarrow> (string \<times> json) list \<Rightarrow> 'u \<Rightarrow> response \<times> 'u" where
  "execute rt oct reqBody =
     handler
       (let tool = field reqBody ''tool''; args = field reqBody ''arguments'' in
        io_bind (dispatch rt oct tool args)
          (\<lambda>result. res_json (JObj [(''result'', result)])))"


section \<open>Discovery\<close>

text \<open>
  A tool descriptor \<open>{ name, description, inputSchema: { type, properties, required } }\<close>;
  each property is \<open>{ type, enum, description }\<close> under its name.
\<close>

record property =
  p_name :: string
  p_type :: string
  p_enum :: "string list option"
  p_description :: string

record tool_descriptor =
  t_name :: string
  t_description :: string
  t_schema_type :: string
  t_properties :: "property list"
  t_required :: "string list option"

record metadata =
  m_name :: string
  m_version :: string
  m_description :: string
  m_protocol :: "string option"
  m_tools :: "tool_descriptor list"

definition str_prop :: "string \<Rightarrow> string \<Rightarrow> property" where
  "str_prop n d = \<lparr>p_name = n, p_type = ''string'', p_enum = None, p_description = d\<rparr>"

text \<open>The object literal of \<open>GET /metadata\<close>.\<close>

definition http_metadata :: metadata where
  "http_metadata =
     \<lparr>m_name = ''github-mcp-server'',
      m_version = ''1.0.0'',
      m_description = ''GitHub operations with read/write access'',
      m_protocol = Some ''http'',
      m_tools =
        [\<lparr>t_name = ''list_repositories'',
          t_description = ''List all accessible repositories'',
          t_schema_type = ''object'',
          t_properties =
            [\<lparr>p_name = ''visibility'', p_type = ''string'',
              p_enum = Some [''all'', ''public'', ''private''],
              p_description = ''Filter by visibility''\<rparr>],
          t_required = None\<rparr>,
         \<lparr>t_name = ''get_file'',
          t_description = ''Get file contents from a repository'',
          t_schema_type = ''object'',
          t_properties =
            [str_prop ''owner'' ''Repository owner'',
             str_prop ''repo'' ''Repository name'',
             str_prop ''path'' ''File path'',
             str_prop ''branch'' ''Branch name (optional)''],
          t_required = Some [''owner'', ''repo'', ''path'']\<rparr>,
         \<lparr>t_name = ''create_or_update_file'',
          t_description = ''Create or update a file in a repository'',
          t_schema_type = ''object'',
          t_properties =
            [str_prop ''owner'' ''Repository owner'',
             str_prop ''repo'' ''Repository name'',
             str_prop ''path'' ''File path'',
             str_prop ''content'' ''File content'',
             str_prop ''message'' ''Commit message'',
             str_prop ''branch'' ''Branch name (optional)''],
          t_required = Some [''owner'', ''repo'', ''path'', ''content'', ''message'']\<rparr>,
         \<lparr>t_name = ''create_branch'',
          t_description = ''Create a new branch'',
          t_schema_type = ''object'',
          t_properties =
            [str_prop ''owner'' ''Repository owner'',
             str_prop ''repo'' ''Repository name'',
             str_prop ''branch'' ''New branch name'',
             str_prop ''from_branch'' ''Source branch (optional)''],
          t_required = Some [''owner'', ''repo'', ''branch'']\<rparr>,
         \<lparr>t_name = ''create_pull_request'',
          t_description = ''Create a pull request'',
          t_schema_type = ''object'',
          t_properties =
            [str_prop ''owner'' ''Repository owner'',
             str_prop ''repo'' ''Repository name'',
             str_prop ''title'' ''PR title'',
             str_prop ''body'' ''PR description'',
             str_prop ''head'' ''Source branch'',
             str_prop ''base'' ''Target branch''],
          t_required = Some [''owner'', ''repo'', ''title'', ''head'', ''base'']\<rparr>]\<rparr>"

text \<open>
  The object literal of \<open>GET /sse\<close>, sent as the event \<open>{ type: 'metadata', metadata }\<close>;
  it is the same in both server files.
\<close>

definition sse_metadata :: metadata where
  "sse_metadata =
     \<lparr>m_name = ''github-mcp-server'',
      m_version = ''1.0.0'',
      m_description = ''GitHub operations with read/write access'',
      m_protocol = None,
      m_tools =
        [\<lparr>t_name = ''list_repositories'',
          t_description = ''List all accessible repositories'',
          t_schema_type = ''object'',
          t_properties =
            [\<lparr>p_name = ''visibility'', p_type = ''string'',
              p_enum = Some [''all'', ''public'', ''private''],
              p_description = ''Filter by visibility''\<rparr>],
          t_required = None\<rparr>,
         \<lparr>t_name = ''get_file'',
          t_description = ''Get file contents from a repository'',
          t_schema_type = ''object'',
          t_properties =
            [str_prop ''owner'' ''Repository owner'',
             str_prop ''repo'' ''Repository name'',
             str_prop ''path'' ''File path'',
             str_prop ''branch'' ''Branch name (optional)''],
          t_required = Some [''owner'', ''repo'', ''path'']\<rparr>,
         \<lparr>t_name = ''create_or_update_file'',
          t_description = ''Create or update a file in a repository'',
          t_schema_type = ''object'',
          t_properties =
            [str_prop ''owner'' ''Repository owner'',
             str_prop ''repo'' ''Repository name'',
             str_prop ''path'' ''File path'',
             str_prop ''content'' ''File content (will be base64 encoded)'',
             str_prop ''message'' ''Commit message'',
             str_prop ''branch'' ''Branch name (optional, defaults to default branch)''],
          t_required = Some [''owner'', ''repo'', ''path'', ''content'', ''message'']\<rparr>,
         \<lparr>t_name = ''create_branch'',
          t_description = ''Create a new branch'',
          t_schema_type = ''object'',
          t_properties =
            [str_prop ''owner'' ''Repository owner'',
             str_prop ''repo'' ''Repository name'',
             str_prop ''branch'' ''New branch name'',
             str_prop ''from_branch'' ''Source branch (optional)''],
          t_required = Some [''owner'', ''repo'', ''branch'']\<rparr>,
         \<lparr>t_name = ''create_pull_request'',
          t_description = ''Create a pull request'',
          t_schema_type = ''object'',
          t_properties =
            [str_prop ''owner'' ''Repository owner'',
             str_prop ''repo'' ''Repository name'',
             str_prop ''title'' ''PR title'',
             str_prop ''body'' ''PR description'',
             str_prop ''head'' ''Source branch'',
             str_prop ''base'' ''Target branch''],
          t_required = Some [''owner'', ''repo'', ''title'', ''head'', ''base'']\<rparr>]\<rparr>"

text \<open>
  The object of \<open>GET /.well-known/ai-plugin.json\<close>; \<open>host\<close> is \<open>req.get('host')\<close>.
\<close>

definition plugin_manifest :: "runtime \<Rightarrow> json \<Rightarrow> json" where
  "plugin_manifest rt host = JObj
     [(''schema_version'', JStr ''v1''),
      (''name_for_human'', JStr ''GitHub Manager''),
      (''name_for_model'', JStr ''github''),
      (''description_for_human'',
         JStr ''Manage GitHub repositories: read/write files, create branches, and PRs''),
      (''description_for_model'',
         JStr ''Plugin for GitHub operations including listing repositories, reading/writing files, creating branches and pull requests.''),
      (''auth'', JObj [(''type'', JStr ''none'')]),
      (''api'', JObj [(''type'', JStr ''openapi''),
                     (''url'', JStr (''https://'' @ tmpl rt host @ ''/openapi.json''))]),
      (''logo_url'',
         JStr ''https://github.githubassets.com/images/modules/logos_page/GitHub-Mark.png''),
      (''contact_email'', JStr ''support@example.com''),
      (''legal_info_url'', JStr ''https://example.com/legal'')]"

section \<open>Observations used in the statements\<close>

text \<open>The member names of an object, in order.\<close>

definition object_keys :: "json \<Rightarrow> string list" where
  "object_keys v = (case v of JObj kvs \<Rightarrow> map fst kvs | _ \<Rightarrow> [])"

text \<open>
  The payload of a response of \<open>/execute\<close>: what is under \<open>result\<close> when the body is the
  wrapper \<open>{ result: ... }\<close>, the body itself when it is not.
\<close>

definition payload :: "json \<Rightarrow> json" where
  "payload b = (case b of JObj [(k, v)] \<Rightarrow> if k = ''result'' then v else b | _ \<Rightarrow> b)"

text \<open>A list of descriptors without the description text of one property of one tool.\<close>

definition without_description ::
  "string \<Rightarrow> string \<Rightarrow> tool_descriptor list \<Rightarrow> tool_descriptor list" where
  "without_description tool property ts =
     map (\<lambda>t. if t_name t = tool
              then t\<lparr>t_properties :=
                      map (\<lambda>p. if p_name p = property then p\<lparr>p_description := []\<rparr> else p)
                        (t_properties t)\<rparr>
              else t) ts"

text \<open>The five names of the dispatch table.\<close>

definition tool_names :: "string list" where
  "tool_names =
     [''list_repositories'', ''get_file'', ''create_or_update_file'', ''create_branch'',
      ''create_pull_request'']"

section \<open>A recording stand-in for the hosting service\<close>

text \<open>
  For running the handlers on concrete requests: a client whose state is the log of the
  calls made so far and whose answers are fixed in advance.
\<close>

type_synonym call_log = "(string \<times> (string \<times> json) list) list"

record answers =
  ans_list :: "string + repo_data list"
  ans_content :: "string + content_data"
  ans_write :: "string + write_data"
  ans_repo :: "string + repo_data"
  ans_getRef :: "string + ref_data"
  ans_createRef :: "string + ref_data"
  ans_pull :: "string + pull_data"

definition recorded :: "string \<Rightarrow> string + 'a \<Rightarrow> (string \<times> json) list \<Rightarrow> ('a, call_log) io" where
  "recorded method answer params log = (answer, log @ [(method, params)])"

definition stub_octokit :: "answers \<Rightarrow> call_log octokit" where
  "stub_octokit a =
     \<lparr>repos_listForAuthenticatedUser = recorded ''repos.listForAuthenticatedUser'' (ans_list a),
      repos_getContent = recorded ''repos.getContent'' (ans_content a),
      repos_createOrUpdateFileContents =
        recorded ''repos.createOrUpdateFileContents'' (ans_write a),
      repos_get = recorded ''repos.get'' (ans_repo a),
      git_getRef = recorded ''git.getRef'' (ans_getRef a),
      git_createRef = recorded ''git.createRef'' (ans_createRef a),
      pulls_create = recorded ''pulls.create'' (ans_pull a)\<rparr>"

definition demo_repo :: repo_data where
  "demo_repo =
     \<lparr>r_name = ''hello'', r_full_name = ''octo/hello'', r_owner_login = ''octo'',
      r_private = False, r_description = None,
      r_html_url = ''https://github.com/octo/hello'', r_default_branch = ''main'',
      r_others = [(''id'', JNum 1), (''fork'', JBool False)]\<rparr>"

definition demo_file :: file_data where
  "demo_file = \<lparr>f_content = ''aGk='', f_sha = ''abc123'', f_size = 2, f_path = ''README.md''\<rparr>"

definition demo_answers :: answers where
  "demo_answers =
     \<lparr>ans_list = Inr [demo_repo],
      ans_content = Inr (File demo_file),
      ans_write = Inr \<lparr>w_commit_sha = ''c0ffee'', w_content = JObj [(''path'', JStr ''README.md'')]\<rparr>,
      ans_repo = Inr demo_repo,
      ans_getRef = Inr \<lparr>ref_object_sha = ''1111''\<rparr>,
      ans_createRef = Inr \<lparr>ref_object_sha = ''1111''\<rparr>,
      ans_pull = Inr \<lparr>pr_number = 7, pr_html_url = ''https://github.com/octo/hello/pull/7'',
                     pr_state = ''open''\<rparr>\<rparr>"

text \<open>
  A runtime for the same purpose, with the messages as V8 words them.  Of its three
  functions the concrete requests below reach only the message of a read on \<open>undefined\<close>.
\<close>

definition demo_runtime :: runtime where
  "demo_runtime =
     \<lparr>to_string = (\<lambda>v. case v of JNull \<Rightarrow> ''null'' | JBool True \<Rightarrow> ''true''
                          | JBool False \<Rightarrow> ''false'' | JObj kvs \<Rightarrow> ''[object Object]''
                          | _ \<Rightarrow> ''undefined''),
      buffer_from_other = (\<lambda>v. Inl ''The first argument must be of type string''),
      nullish_read =
        (\<lambda>v k. ''Cannot read properties of ''
                 @ (case v of JNull \<Rightarrow> ''null'' | _ \<Rightarrow> ''undefined'')
                 @ '' (reading '' @ [CHR 0x27] @ k @ [CHR 0x27] @ '')'')\<rparr>"


definition demo_request :: rest_request where
  "demo_request =
     \<lparr>req_owner = ''octo'', req_repo = ''hello'', req_path = ''README.md'',
      req_query = [], req_body = []\<rparr>"











section \<open>Evaluating the handlers\<close>

lemmas io_defs =
  io_ret_def io_throw_def io_lift_def io_bind_def io_catch_def handler_def
  res_json_def res_status_json_def reading_def

lemma execute_list_repositories:
  assumes "field b ''tool'' = JStr ''list_repositories''"
  shows "execute rt oct b = handler (io_bind (tool_list_repositories rt oct (field b ''arguments'')) (\<lambda>result. res_json (JObj [(''result'', result)])))"
  using assms by (simp add: execute_def dispatch_def)

lemma execute_unfold:
  "execute rt oct b = handler (io_bind (dispatch rt oct (field b ''tool'') (field b ''arguments''))
      (\<lambda>result. res_json (JObj [(''result'', result)])))"
  by (simp add: execute_def)

lemma payload_result [simp]: "payload (JObj [(''result'', v)]) = v"
  by (simp add: payload_def)

lemma payload_error [simp]: "payload (error_body e) = error_body e"
  by (simp add: payload_def error_body_def)


section \<open>The two encodings\<close>
































text \<open>
  Two payloads the decoder reads by more than their ASCII characters: four characters
  outside ASCII whose low bytes are \<open>aGk=\<close>, and the byte FF, which is no UTF-8.
\<close>

lemma base64_decode_low_bytes:
  "base64_decode [CHR 0xC5, CHR 0xA1, CHR 0xC5, CHR 0x87, CHR 0xC5, CHR 0xAB, CHR 0xC4, CHR 0xBD]
     = ''hi''"
  by code_simp

lemma base64_decode_ill_formed: "base64_decode ''/w=='' = [CHR 0xEF, CHR 0xBF, CHR 0xBD]"
  by code_simp


section \<open>The two adapters against each other\<close>

text \<open>
  With the same arguments and against the same service, \<open>/execute\<close> and the REST route of an
  operation leave the service in the same state and send the same payload, whatever the
  service answers; for reading a file this holds unless the path is a directory.
\<close>

lemma adapters_agree_list_repositories:
  assumes "field b ''tool'' = JStr ''list_repositories''" and "field b ''arguments'' = JObj kvs"
    and "field kvs ''visibility'' = field (req_query req) ''visibility''"
  shows "payload (body (fst (execute rt oct b u))) = body (fst (rest_list_repositories oct req u))"
    and "snd (execute rt oct b u) = snd (rest_list_repositories oct req u)"
  using assms
  by (auto simp: execute_unfold dispatch_def tool_list_repositories_def rest_list_repositories_def
      Let_def get_prop_def nullish_def io_defs split: prod.splits sum.splits)

lemma adapters_agree_get_file:
  assumes "field b ''tool'' = JStr ''get_file''" and "field b ''arguments'' = JObj kvs"
    and "field kvs ''owner'' = JStr (req_owner req)" and "field kvs ''repo'' = JStr (req_repo req)"
    and "field kvs ''path'' = JStr (req_path req)"
    and "field kvs ''branch'' = field (req_query req) ''branch''"
    and "repos_getContent oct
           (content_params (JStr (req_owner req)) (JStr (req_repo req)) (JStr (req_path req))
              (field (req_query req) ''branch'')) u = (answer, u')"
    and "case answer of Inr (Directory entries) \<Rightarrow> False | _ \<Rightarrow> True"
  shows "payload (body (fst (execute rt oct b u))) = body (fst (rest_get_file oct req u))"
    and "snd (execute rt oct b u) = snd (rest_get_file oct req u)"
  using assms
  by (auto simp: execute_unfold dispatch_def tool_get_file_def rest_get_file_def
      Let_def get_prop_def nullish_def io_defs split: prod.splits sum.splits content_data.splits)

lemma adapters_agree_create_or_update_file:
  assumes "field b ''tool'' = JStr ''create_or_update_file''" and "field b ''arguments'' = JObj kvs"
    and "field kvs ''owner'' = JStr (req_owner req)" and "field kvs ''repo'' = JStr (req_repo req)"
    and "field kvs ''path'' = JStr (req_path req)"
    and "field kvs ''content'' = field (req_body req) ''content''"
    and "field kvs ''message'' = field (req_body req) ''message''"
    and "field kvs ''branch'' = field (req_body req) ''branch''"
  shows "payload (body (fst (execute rt oct b u))) = body (fst (rest_create_or_update_file rt oct req u))"
    and "snd (execute rt oct b u) = snd (rest_create_or_update_file rt oct req u)"
  using assms
  by (auto simp: execute_unfold dispatch_def tool_create_or_update_file_def
      rest_create_or_update_file_def existing_sha_def
      Let_def get_prop_def nullish_def io_defs split: prod.splits sum.splits)

lemma adapters_agree_create_branch:
  assumes "field b ''tool'' = JStr ''create_branch''" and "field b ''arguments'' = JObj kvs"
    and "field kvs ''owner'' = JStr (req_owner req)" and "field kvs ''repo'' = JStr (req_repo req)"
    and "field kvs ''branch'' = field (req_body req) ''branch''"
    and "field kvs ''from_branch'' = field (req_body req) ''from_branch''"
  shows "payload (body (fst (execute rt oct b u))) = body (fst (rest_create_branch rt oct req u))"
    and "snd (execute rt oct b u) = snd (rest_create_branch rt oct req u)"
  using assms
  by (auto simp: execute_unfold dispatch_def tool_create_branch_def rest_create_branch_def
      Let_def get_prop_def nullish_def io_defs split: prod.splits sum.splits)

lemma adapters_agree_create_pull_request:
  assumes "field b ''tool'' = JStr ''create_pull_request''" and "field b ''arguments'' = JObj kvs"
    and "field kvs ''owner'' = JStr (req_owner req)" and "field kvs ''repo'' = JStr (req_repo req)"
    and "field kvs ''title'' = field (req_body req) ''title''"
    and "field kvs ''body'' = field (req_body req) ''body''"
    and "field kvs ''head'' = field (req_body req) ''head''"
    and "field kvs ''base'' = field (req_body req) ''base''"
  shows "payload (body (fst (execute rt oct b u))) = body (fst (rest_create_pull_request oct req u))"
    and "snd (execute rt oct b u) = snd (rest_create_pull_request oct req u)"
  using assms
  by (auto simp: execute_unfold dispatch_def tool_create_pull_request_def
      rest_create_pull_request_def
      Let_def get_prop_def nullish_def io_defs split: prod.splits sum.splits)

text \<open>
  C1.  On a path that is a directory the two adapters send different bodies for the same
  arguments: the REST route sends \<open>{ error: 'Path is a directory' }\<close>, and \<open>/execute\<close> sends,
  under \<open>result\<close>, \<open>{ error: 'Path is a directory, not a file' }\<close>.
\<close>

theorem adapters_differ_on_directory:
  "body (fst (rest_get_file (stub_octokit (demo_answers\<lparr>ans_content := Inr (Directory [])\<rparr>))
       (demo_request\<lparr>req_path := ''src''\<rparr>) [])) = JObj [(''error'', JStr ''Path is a directory'')] \<and>
   payload (body (fst (execute demo_runtime
       (stub_octokit (demo_answers\<lparr>ans_content := Inr (Directory [])\<rparr>))
       [(''tool'', JStr ''get_file''),
        (''arguments'', JObj [(''owner'', JStr ''octo''), (''repo'', JStr ''hello''),
                              (''path'', JStr ''src'')])] []))) =
     JObj [(''error'', JStr ''Path is a directory, not a file'')] \<and>
   body (fst (rest_get_file (stub_octokit (demo_answers\<lparr>ans_content := Inr (Directory [])\<rparr>))
       (demo_request\<lparr>req_path := ''src''\<rparr>) [])) \<noteq>
   payload (body (fst (execute demo_runtime
       (stub_octokit (demo_answers\<lparr>ans_content := Inr (Directory [])\<rparr>))
       [(''tool'', JStr ''get_file''),
        (''arguments'', JObj [(''owner'', JStr ''octo''), (''repo'', JStr ''hello''),
                              (''path'', JStr ''src'')])] [])))"
  by (simp add: rest_get_file_def execute_unfold dispatch_def tool_get_file_def error_body_def
      get_prop_def nullish_def io_defs field_def demo_request_def content_params_def
      stub_octokit_def recorded_def)

section \<open>Writing a file\<close>





section \<open>Failures of \<open>/execute\<close>\<close>

text \<open>
  C3.  When the service rejects the listing of repositories, \<open>/execute\<close> answers with
  status 500 and the body \<open>{ error: message }\<close>: the \<open>list_repositories\<close> case has no \<open>try\<close> of
  its own, so the error reaches the outer \<open>catch\<close>.
\<close>

theorem list_repositories_failure_is_500:
  assumes "field b ''tool'' = JStr ''list_repositories''"
    and "field b ''arguments'' = args" and "\<not> nullish args"
    and "repos_listForAuthenticatedUser oct
           (list_params (js_or (get_prop args ''visibility'') (JStr ''all''))) u = (Inl message, u')"
  shows "execute rt oct b u = (\<lparr>status = 500, body = JObj [(''error'', JStr message)]\<rparr>, u')"
  using assms
  by (simp add: execute_unfold dispatch_def tool_list_repositories_def error_body_def io_defs)

theorem list_repositories_failure_is_500_witness:
  "execute demo_runtime (stub_octokit (demo_answers\<lparr>ans_list := Inl ''Bad credentials''\<rparr>))
     [(''tool'', JStr ''list_repositories''), (''arguments'', JObj [])] [] =
   (\<lparr>status = 500, body = JObj [(''error'', JStr ''Bad credentials'')]\<rparr>,
    [(''repos.listForAuthenticatedUser'',
      [(''visibility'', JStr ''all''), (''sort'', JStr ''updated''), (''per_page'', JNum 100)])])"
  using list_repositories_failure_is_500
    [of "[(''tool'', JStr ''list_repositories''), (''arguments'', JObj [])]" "JObj []"
      "stub_octokit (demo_answers\<lparr>ans_list := Inl ''Bad credentials''\<rparr>)" "[]" "''Bad credentials''"
      "[(''repos.listForAuthenticatedUser'',
      [(''visibility'', JStr ''all''), (''sort'', JStr ''updated''), (''per_page'', JNum 100)])]" demo_runtime]
  by (simp add: field_def nullish_def get_prop_def js_or_def list_params_def stub_octokit_def recorded_def)

text \<open>The same case throws before any call when the request has no \<open>arguments\<close>.\<close>

lemma list_repositories_without_arguments:
  assumes "field b ''tool'' = JStr ''list_repositories''" and "nullish (field b ''arguments'')"
  shows "execute rt oct b u =
     (\<lparr>status = 500,
       body = JObj [(''error'', JStr (nullish_read rt (field b ''arguments'') ''visibility''))]\<rparr>, u)"
  using assms
  by (simp add: execute_unfold dispatch_def tool_list_repositories_def error_body_def io_defs)

text \<open>Every case of the switch but the first returns a value: it cannot throw.\<close>

lemma io_catch_returns:
  "\<exists>x u'. io_catch m (\<lambda>e. io_ret (h e)) u = (Inr x, u')"
  by (cases "m u") (auto simp: io_catch_def io_ret_def split: sum.splits)

lemma tools_with_try_return:
  "\<exists>x u'. tool_get_file rt oct args u = (Inr x, u')"
  "\<exists>x u'. tool_create_or_update_file rt oct args u = (Inr x, u')"
  "\<exists>x u'. tool_create_branch rt oct args u = (Inr x, u')"
  "\<exists>x u'. tool_create_pull_request rt oct args u = (Inr x, u')"
  unfolding tool_get_file_def tool_create_or_update_file_def tool_create_branch_def
    tool_create_pull_request_def
  by (rule io_catch_returns)+

lemma execute_status_200:
  assumes "field b ''tool'' \<noteq> JStr ''list_repositories''"
  shows "status (fst (execute rt oct b u)) = 200"
proof -
  have "\<exists>x u'. dispatch rt oct (field b ''tool'') (field b ''arguments'') u = (Inr x, u')"
    using assms tools_with_try_return [of rt oct "field b ''arguments''" u]
    by (simp add: dispatch_def io_ret_def)
  then show ?thesis
    by (auto simp: execute_unfold io_defs)
qed

text \<open>
  C4.  A tool name that is none of the five gives status 200, the body
  \<open>{ result: { error: "Unknown tool: <name>" } }\<close> and no call to the service.
\<close>

theorem unknown_tool:
  assumes "field b ''tool'' = JStr name" and "name \<notin> set tool_names"
  shows "execute rt oct b u =
     (\<lparr>status = 200,
       body = JObj [(''result'', JObj [(''error'', JStr (''Unknown tool: '' @ name))])]\<rparr>, u)"
  using assms
  by (auto simp: execute_unfold dispatch_def tool_names_def tmpl_def error_body_def io_defs)

theorem unknown_tool_witness:
  "execute demo_runtime (stub_octokit demo_answers)
     [(''tool'', JStr ''not_a_real_tool''), (''arguments'', JObj [])] [] =
   (\<lparr>status = 200,
     body = JObj [(''result'', JObj [(''error'', JStr ''Unknown tool: not_a_real_tool'')])]\<rparr>, [])"
  using unknown_tool [of "[(''tool'', JStr ''not_a_real_tool''), (''arguments'', JObj [])]"
      "''not_a_real_tool''" demo_runtime "stub_octokit demo_answers" "[]"]
  by (simp add: field_def tool_names_def)

section \<open>Reading a directory\<close>

text \<open>
  C5.  When the path is a directory, the REST route answers with status 400 and the message
  \<open>Path is a directory\<close>, and \<open>/execute\<close> answers with status 200 and the message
  \<open>Path is a directory, not a file\<close> under \<open>result\<close>.
\<close>

theorem directory_messages:
  assumes "repos_getContent oct
             (content_params (JStr (req_owner req)) (JStr (req_repo req)) (JStr (req_path req))
                (field (req_query req) ''branch'')) u = (Inr (Directory entries), u')"
    and "field b ''tool'' = JStr ''get_file''" and "field b ''arguments'' = JObj kvs"
    and "field kvs ''owner'' = JStr (req_owner req)" and "field kvs ''repo'' = JStr (req_repo req)"
    and "field kvs ''path'' = JStr (req_path req)"
    and "field kvs ''branch'' = field (req_query req) ''branch''"
  shows "rest_get_file oct req u =
           (\<lparr>status = 400, body = JObj [(''error'', JStr ''Path is a directory'')]\<rparr>, u') \<and>
         execute rt oct b u =
           (\<lparr>status = 200,
             body = JObj [(''result'', JObj [(''error'', JStr ''Path is a directory, not a file'')])]\<rparr>, u')"
  using assms
  by (simp add: rest_get_file_def execute_unfold dispatch_def tool_get_file_def error_body_def
      get_prop_def nullish_def io_defs)

theorem directory_messages_witness:
  "rest_get_file (stub_octokit (demo_answers\<lparr>ans_content := Inr (Directory [])\<rparr>))
       (demo_request\<lparr>req_path := ''src''\<rparr>) [] =
     (\<lparr>status = 400, body = JObj [(''error'', JStr ''Path is a directory'')]\<rparr>,
      [(''repos.getContent'',
        [(''owner'', JStr ''octo''), (''repo'', JStr ''hello''), (''path'', JStr ''src''),
         (''ref'', JUndefined)])]) \<and>
   execute demo_runtime (stub_octokit (demo_answers\<lparr>ans_content := Inr (Directory [])\<rparr>))
       [(''tool'', JStr ''get_file''),
        (''arguments'', JObj [(''owner'', JStr ''octo''), (''repo'', JStr ''hello''),
                              (''path'', JStr ''src'')])] [] =
     (\<lparr>status = 200,
       body = JObj [(''result'', JObj [(''error'', JStr ''Path is a directory, not a file'')])]\<rparr>,
      [(''repos.getContent'',
        [(''owner'', JStr ''octo''), (''repo'', JStr ''hello''), (''path'', JStr ''src''),
         (''ref'', JUndefined)])])"
  using directory_messages
    [of "stub_octokit (demo_answers\<lparr>ans_content := Inr (Directory [])\<rparr>)"
      "demo_request\<lparr>req_path := ''src''\<rparr>" "[]" "[]"
      "[(''repos.getContent'',
        [(''owner'', JStr ''octo''), (''repo'', JStr ''hello''), (''path'', JStr ''src''),
         (''ref'', JUndefined)])]"
      "[(''tool'', JStr ''get_file''),
        (''arguments'', JObj [(''owner'', JStr ''octo''), (''repo'', JStr ''hello''),
                              (''path'', JStr ''src'')])]"
      "[(''owner'', JStr ''octo''), (''repo'', JStr ''hello''), (''path'', JStr ''src'')]"
      demo_runtime]
  by (simp add: field_def demo_request_def content_params_def stub_octokit_def recorded_def)

section \<open>Discovery\<close>

text \<open>
  C6.  \<open>/metadata\<close> and the first event of \<open>/sse\<close> list the same five tools in the same order,
  and the two lists are equal in everything but the description texts of the properties
  \<open>content\<close> and \<open>branch\<close> of \<open>create_or_update_file\<close>, which the comparison leaves out.  The
  plugin manifest lists no tools: it refers to the OpenAPI document of the host.
\<close>

theorem discovery_tool_lists:
  "map t_name (m_tools http_metadata) = tool_names \<and>
   map t_name (m_tools sse_metadata) = tool_names \<and>
   length tool_names = 5 \<and>
   without_description ''create_or_update_file'' ''content''
     (without_description ''create_or_update_file'' ''branch'' (m_tools http_metadata)) =
   without_description ''create_or_update_file'' ''content''
     (without_description ''create_or_update_file'' ''branch'' (m_tools sse_metadata)) \<and>
   object_keys (plugin_manifest rt host) =
     [''schema_version'', ''name_for_human'', ''name_for_model'', ''description_for_human'',
      ''description_for_model'', ''auth'', ''api'', ''logo_url'', ''contact_email'',
      ''legal_info_url''] \<and>
   field (case plugin_manifest rt host of JObj kvs \<Rightarrow> kvs | _ \<Rightarrow> []) ''api'' =
     JObj [(''type'', JStr ''openapi''),
           (''url'', JStr (''https://'' @ tmpl rt host @ ''/openapi.json''))]"
  by (simp add: http_metadata_def sse_metadata_def tool_names_def without_description_def
      str_prop_def plugin_manifest_def object_keys_def field_def)

text \<open>The two descriptor lists are not equal, and the manifest has no member \<open>tools\<close>.\<close>

theorem discovery_descriptors_differ:
  "m_tools http_metadata \<noteq> m_tools sse_metadata \<and>
   ''tools'' \<notin> set (object_keys (plugin_manifest demo_runtime (JStr ''example.com'')))"
  by (simp add: http_metadata_def sse_metadata_def str_prop_def plugin_manifest_def
      object_keys_def)

section \<open>Creating a branch\<close>

text \<open>
  C7.  The source branch is \<open>from_branch\<close> when it is given (a non-empty string) and the
  default branch of the repository when it is absent.  The handler reads the head of
  \<open>heads/<source>\<close>, creates \<open>refs/heads/<branch>\<close> at the commit it read, and answers
  \<open>{ success: true, branch, sha }\<close> with the \<open>sha\<close> the service reports for the new ref.
\<close>

theorem create_branch_contract:
  assumes source: "from_branch = JUndefined \<and> src = r_default_branch repoData
                   \<or> from_branch = JStr src \<and> src \<noteq> []"
    and rest_args: "field (req_body req) ''branch'' = JStr branch"
      "field (req_body req) ''from_branch'' = from_branch"
    and tool_req: "field b ''tool'' = JStr ''create_branch''" "field b ''arguments'' = JObj kvs"
    and tool_args: "field kvs ''owner'' = JStr (req_owner req)"
      "field kvs ''repo'' = JStr (req_repo req)"
      "field kvs ''branch'' = JStr branch" "field kvs ''from_branch'' = from_branch"
    and get: "repos_get oct [(''owner'', JStr (req_owner req)), (''repo'', JStr (req_repo req))] u
                = (Inr repoData, u1)"
    and getRef: "git_getRef oct
                   [(''owner'', JStr (req_owner req)), (''repo'', JStr (req_repo req)),
                    (''ref'', JStr (''heads/'' @ src))] u1 = (Inr ref, u2)"
    and createRef: "git_createRef oct
                   [(''owner'', JStr (req_owner req)), (''repo'', JStr (req_repo req)),
                    (''ref'', JStr (''refs/heads/'' @ branch)),
                    (''sha'', JStr (ref_object_sha ref))] u2 = (Inr newBranch, u3)"
  shows "rest_create_branch rt oct req u =
           (\<lparr>status = 200,
             body = JObj [(''success'', JBool True), (''branch'', JStr branch),
                          (''sha'', JStr (ref_object_sha newBranch))]\<rparr>, u3) \<and>
         execute rt oct b u =
           (\<lparr>status = 200,
             body = JObj [(''result'',
                      JObj [(''success'', JBool True), (''branch'', JStr branch),
                            (''sha'', JStr (ref_object_sha newBranch))])]\<rparr>, u3)"
proof -
  have src: "tmpl rt (source_branch from_branch repoData) = src"
    using source by (auto simp: source_branch_def js_or_def tmpl_def)
  have 1: "rest_create_branch rt oct req u =
           (\<lparr>status = 200,
             body = JObj [(''success'', JBool True), (''branch'', JStr branch),
                          (''sha'', JStr (ref_object_sha newBranch))]\<rparr>, u3)"
    using rest_args get getRef createRef src
    by (simp add: rest_create_branch_def getRef_params_def createRef_params_def branch_body_def
        tmpl_def Let_def io_defs)
  have 2: "execute rt oct b u =
           (\<lparr>status = 200,
             body = JObj [(''result'',
                      JObj [(''success'', JBool True), (''branch'', JStr branch),
                            (''sha'', JStr (ref_object_sha newBranch))])]\<rparr>, u3)"
    using tool_req tool_args get getRef createRef src
    by (simp add: execute_unfold dispatch_def tool_create_branch_def getRef_params_def
        createRef_params_def branch_body_def tmpl_def get_prop_def nullish_def Let_def io_defs)
  from 1 2 show ?thesis by simp
qed

theorem create_branch_contract_witness:
  "rest_create_branch demo_runtime (stub_octokit demo_answers)
      (demo_request\<lparr>req_body := [(''branch'', JStr ''feature'')]\<rparr>) [] =
     (\<lparr>status = 200,
       body = JObj [(''success'', JBool True), (''branch'', JStr ''feature''),
                    (''sha'', JStr ''1111'')]\<rparr>,
      [(''repos.get'', [(''owner'', JStr ''octo''), (''repo'', JStr ''hello'')]),
       (''git.getRef'', [(''owner'', JStr ''octo''), (''repo'', JStr ''hello''),
                         (''ref'', JStr ''heads/main'')]),
       (''git.createRef'', [(''owner'', JStr ''octo''), (''repo'', JStr ''hello''),
                            (''ref'', JStr ''refs/heads/feature''), (''sha'', JStr ''1111'')])]) \<and>
   execute demo_runtime (stub_octokit demo_answers)
      [(''tool'', JStr ''create_branch''),
       (''arguments'', JObj [(''owner'', JStr ''octo''), (''repo'', JStr ''hello''),
                             (''branch'', JStr ''feature'')])] [] =
     (\<lparr>status = 200,
       body = JObj [(''result'',
                JObj [(''success'', JBool True), (''branch'', JStr ''feature''),
                      (''sha'', JStr ''1111'')])]\<rparr>,
      [(''repos.get'', [(''owner'', JStr ''octo''), (''repo'', JStr ''hello'')]),
       (''git.getRef'', [(''owner'', JStr ''octo''), (''repo'', JStr ''hello''),
                         (''ref'', JStr ''heads/main'')]),
       (''git.createRef'', [(''owner'', JStr ''octo''), (''repo'', JStr ''hello''),
                            (''ref'', JStr ''refs/heads/feature''), (''sha'', JStr ''1111'')])])"
  using create_branch_contract
    [where rt = demo_runtime and oct = "stub_octokit demo_answers"
       and req = "demo_request\<lparr>req_body := [(''branch'', JStr ''feature'')]\<rparr>"
       and b = "[(''tool'', JStr ''create_branch''),
                 (''arguments'', JObj [(''owner'', JStr ''octo''), (''repo'', JStr ''hello''),
                             (''branch'', JStr ''feature'')])]"
       and kvs = "[(''owner'', JStr ''octo''), (''repo'', JStr ''hello''),
                             (''branch'', JStr ''feature'')]"
       and from_branch = JUndefined and src = "''main''" and repoData = demo_repo
       and branch = "''feature''" and u = "[]"
       and ?u1.0 = "[(''repos.get'', [(''owner'', JStr ''octo''), (''repo'', JStr ''hello'')])]"
       and ref = "\<lparr>ref_object_sha = ''1111''\<rparr>"
       and ?u2.0 = "[(''repos.get'', [(''owner'', JStr ''octo''), (''repo'', JStr ''hello'')]),
       (''git.getRef'', [(''owner'', JStr ''octo''), (''repo'', JStr ''hello''),
                         (''ref'', JStr ''heads/main'')])]"
       and newBranch = "\<lparr>ref_object_sha = ''1111''\<rparr>"
       and ?u3.0 = "[(''repos.get'', [(''owner'', JStr ''octo''), (''repo'', JStr ''hello'')]),
       (''git.getRef'', [(''owner'', JStr ''octo''), (''repo'', JStr ''hello''),
                         (''ref'', JStr ''heads/main'')]),
       (''git.createRef'', [(''owner'', JStr ''octo''), (''repo'', JStr ''hello''),
                            (''ref'', JStr ''refs/heads/feature''), (''sha'', JStr ''1111'')])]"]
  by (simp add: field_def demo_request_def demo_repo_def stub_octokit_def recorded_def
      demo_answers_def)

section \<open>Listing repositories\<close>

text \<open>
  For a REST request, and for a request to \<open>/execute\<close> whose \<open>arguments\<close> is neither \<open>undefined\<close>
  nor \<open>null\<close>: the handler sends \<open>visibility || 'all'\<close>, so \<open>'all'\<close> when the argument is absent,
  with \<open>sort: 'updated'\<close> and \<open>per_page: 100\<close>; when the service answers, the response holds
  for each repository it returned, in order, the members \<open>name\<close>, \<open>full_name\<close>, \<open>owner\<close> (the
  login), \<open>private\<close>, \<open>description\<close>, \<open>url\<close> (the \<open>html_url\<close>) and \<open>default_branch\<close>, and
  nothing else (so at most 100 entries when the service keeps to the page size).
\<close>

lemma list_repositories_contract:
  assumes rest_arg: "field (req_query req) ''visibility'' = v"
    and tool_req: "field b ''tool'' = JStr ''list_repositories''" "field b ''arguments'' = args"
    and tool_arg: "\<not> nullish args" "get_prop args ''visibility'' = v"
    and upstream: "repos_listForAuthenticatedUser oct
        [(''visibility'', if v = JUndefined then JStr ''all'' else js_or v (JStr ''all'')),
         (''sort'', JStr ''updated''), (''per_page'', JNum 100)] u = (Inr repos, u')"
  shows "rest_list_repositories oct req u =
           (\<lparr>status = 200, body = JArr (map (\<lambda>r. JObj
                [(''name'', JStr (r_name r)),
                 (''full_name'', JStr (r_full_name r)),
                 (''owner'', JStr (r_owner_login r)),
                 (''private'', JBool (r_private r)),
                 (''description'', case r_description r of None \<Rightarrow> JNull | Some d \<Rightarrow> JStr d),
                 (''url'', JStr (r_html_url r)),
                 (''default_branch'', JStr (r_default_branch r))]) repos)\<rparr>, u')"
    and "execute rt oct b u =
           (\<lparr>status = 200, body = JObj [(''result'', JArr (map (\<lambda>r. JObj
                [(''name'', JStr (r_name r)),
                 (''full_name'', JStr (r_full_name r)),
                 (''owner'', JStr (r_owner_login r)),
                 (''private'', JBool (r_private r)),
                 (''description'', case r_description r of None \<Rightarrow> JNull | Some d \<Rightarrow> JStr d),
                 (''url'', JStr (r_html_url r)),
                 (''default_branch'', JStr (r_default_branch r))]) repos))]\<rparr>, u')"
proof -
  have vis: "js_or v (JStr ''all'') = (if v = JUndefined then JStr ''all'' else js_or v (JStr ''all''))"
    by (simp add: js_or_def)
  show "rest_list_repositories oct req u =
           (\<lparr>status = 200, body = JArr (map (\<lambda>r. JObj
                [(''name'', JStr (r_name r)),
                 (''full_name'', JStr (r_full_name r)),
                 (''owner'', JStr (r_owner_login r)),
                 (''private'', JBool (r_private r)),
                 (''description'', case r_description r of None \<Rightarrow> JNull | Some d \<Rightarrow> JStr d),
                 (''url'', JStr (r_html_url r)),
                 (''default_branch'', JStr (r_default_branch r))]) repos)\<rparr>, u')"
    using rest_arg upstream
    by (simp add: rest_list_repositories_def list_params_def summary_def opt_string_def
        vis [symmetric] io_defs)
  show "execute rt oct b u =
           (\<lparr>status = 200, body = JObj [(''result'', JArr (map (\<lambda>r. JObj
                [(''name'', JStr (r_name r)),
                 (''full_name'', JStr (r_full_name r)),
                 (''owner'', JStr (r_owner_login r)),
                 (''private'', JBool (r_private r)),
                 (''description'', case r_description r of None \<Rightarrow> JNull | Some d \<Rightarrow> JStr d),
                 (''url'', JStr (r_html_url r)),
                 (''default_branch'', JStr (r_default_branch r))]) repos))]\<rparr>, u')"
    using tool_arg upstream tool_req(2)
    by (simp add: execute_list_repositories [OF tool_req(1)] tool_list_repositories_def
        list_params_def summary_def opt_string_def vis [symmetric] io_defs)
qed

lemma list_repositories_example:
  "rest_list_repositories (stub_octokit demo_answers) demo_request [] =
     (\<lparr>status = 200, body = JArr [JObj
        [(''name'', JStr ''hello''), (''full_name'', JStr ''octo/hello''), (''owner'', JStr ''octo''),
         (''private'', JBool False), (''description'', JNull),
         (''url'', JStr ''https://github.com/octo/hello''), (''default_branch'', JStr ''main'')]]\<rparr>,
      [(''repos.listForAuthenticatedUser'',
        [(''visibility'', JStr ''all''), (''sort'', JStr ''updated''), (''per_page'', JNum 100)])])"
  "execute demo_runtime (stub_octokit demo_answers)
        [(''tool'', JStr ''list_repositories''), (''arguments'', JObj [])] [] =
     (\<lparr>status = 200, body = JObj [(''result'', JArr [JObj
        [(''name'', JStr ''hello''), (''full_name'', JStr ''octo/hello''), (''owner'', JStr ''octo''),
         (''private'', JBool False), (''description'', JNull),
         (''url'', JStr ''https://github.com/octo/hello''), (''default_branch'', JStr ''main'')]])]\<rparr>,
      [(''repos.listForAuthenticatedUser'',
        [(''visibility'', JStr ''all''), (''sort'', JStr ''updated''), (''per_page'', JNum 100)])])"
proof -
  have up: "repos_listForAuthenticatedUser (stub_octokit demo_answers)
        [(''visibility'', if JUndefined = JUndefined then JStr ''all''
                          else js_or JUndefined (JStr ''all'')),
         (''sort'', JStr ''updated''), (''per_page'', JNum 100)] [] =
        (Inr [demo_repo], [(''repos.listForAuthenticatedUser'',
        [(''visibility'', JStr ''all''), (''sort'', JStr ''updated''), (''per_page'', JNum 100)])])"
    by (simp add: stub_octokit_def recorded_def demo_answers_def)
  note inst = list_repositories_contract [where v = JUndefined
        and req = demo_request
        and b = "[(''tool'', JStr ''list_repositories''), (''arguments'', JObj [])]"
        and args = "JObj []", OF _ _ _ _ _ up]
  show "rest_list_repositories (stub_octokit demo_answers) demo_request [] =
     (\<lparr>status = 200, body = JArr [JObj
        [(''name'', JStr ''hello''), (''full_name'', JStr ''octo/hello''), (''owner'', JStr ''octo''),
         (''private'', JBool False), (''description'', JNull),
         (''url'', JStr ''https://github.com/octo/hello''), (''default_branch'', JStr ''main'')]]\<rparr>,
      [(''repos.listForAuthenticatedUser'',
        [(''visibility'', JStr ''all''), (''sort'', JStr ''updated''), (''per_page'', JNum 100)])])"
    using inst(1)
    by (simp add: field_def get_prop_def nullish_def demo_request_def demo_repo_def)
  show "execute demo_runtime (stub_octokit demo_answers)
        [(''tool'', JStr ''list_repositories''), (''arguments'', JObj [])] [] =
     (\<lparr>status = 200, body = JObj [(''result'', JArr [JObj
        [(''name'', JStr ''hello''), (''full_name'', JStr ''octo/hello''), (''owner'', JStr ''octo''),
         (''private'', JBool False), (''description'', JNull),
         (''url'', JStr ''https://github.com/octo/hello''), (''default_branch'', JStr ''main'')]])]\<rparr>,
      [(''repos.listForAuthenticatedUser'',
        [(''visibility'', JStr ''all''), (''sort'', JStr ''updated''), (''per_page'', JNum 100)])])"
    using inst(2)
    by (simp add: field_def get_prop_def nullish_def demo_request_def demo_repo_def)
qed

text \<open>
  C8.  A request to \<open>/execute\<close> that names \<open>list_repositories\<close> and has no \<open>arguments\<close>: reading
  \<open>visibility\<close> of \<open>undefined\<close> throws, nothing is asked of the service, and the answer is status
  500 with the message of the \<open>TypeError\<close>; \<open>visibility\<close> is not set to \<open>'all'\<close>.  The REST route
  with no \<open>visibility\<close> in the query does ask the service, with \<open>visibility: 'all'\<close>.
\<close>

theorem list_repositories_no_arguments_no_default:
  assumes "field b ''tool'' = JStr ''list_repositories''" and "field b ''arguments'' = JUndefined"
    and "field (req_query req) ''visibility'' = JUndefined"
    and "repos_listForAuthenticatedUser oct
        [(''visibility'', JStr ''all''), (''sort'', JStr ''updated''), (''per_page'', JNum 100)] u
          = (Inr repos, u')"
  shows "execute rt oct b u =
           (\<lparr>status = 500,
             body = JObj [(''error'', JStr (nullish_read rt JUndefined ''visibility''))]\<rparr>, u) \<and>
         rest_list_repositories oct req u =
           (\<lparr>status = 200, body = JArr (map (\<lambda>r. JObj
                [(''name'', JStr (r_name r)),
                 (''full_name'', JStr (r_full_name r)),
                 (''owner'', JStr (r_owner_login r)),
                 (''private'', JBool (r_private r)),
                 (''description'', case r_description r of None \<Rightarrow> JNull | Some d \<Rightarrow> JStr d),
                 (''url'', JStr (r_html_url r)),
                 (''default_branch'', JStr (r_default_branch r))]) repos)\<rparr>, u')"
  using assms
  by (simp add: execute_unfold dispatch_def tool_list_repositories_def error_body_def
      rest_list_repositories_def list_params_def summary_def opt_string_def js_or_def
      nullish_def io_defs)

theorem list_repositories_no_arguments_no_default_witness:
  "execute demo_runtime (stub_octokit demo_answers) [(''tool'', JStr ''list_repositories'')] [] =
     (\<lparr>status = 500,
       body = JObj [(''error'',
                JStr (''Cannot read properties of undefined (reading ''
                        @ [CHR 0x27] @ ''visibility'' @ [CHR 0x27] @ '')''))]\<rparr>, []) \<and>
   rest_list_repositories (stub_octokit demo_answers) demo_request [] =
     (\<lparr>status = 200, body = JArr [JObj
        [(''name'', JStr ''hello''), (''full_name'', JStr ''octo/hello''), (''owner'', JStr ''octo''),
         (''private'', JBool False), (''description'', JNull),
         (''url'', JStr ''https://github.com/octo/hello''), (''default_branch'', JStr ''main'')]]\<rparr>,
      [(''repos.listForAuthenticatedUser'',
        [(''visibility'', JStr ''all''), (''sort'', JStr ''updated''), (''per_page'', JNum 100)])])"
  using list_repositories_no_arguments_no_default
    [where rt = demo_runtime and oct = "stub_octokit demo_answers"
       and b = "[(''tool'', JStr ''list_repositories'')]" and req = demo_request and u = "[]"
       and repos = "[demo_repo]"
       and u' = "[(''repos.listForAuthenticatedUser'',
        [(''visibility'', JStr ''all''), (''sort'', JStr ''updated''), (''per_page'', JNum 100)])]"]
  by (simp add: field_def demo_request_def demo_repo_def demo_runtime_def stub_octokit_def
      recorded_def demo_answers_def)

section \<open>What is written is what is read\<close>




section \<open>Empty strings\<close>



end
